theory Spec2Isabelle
  imports Main "HOL-Library.List_Lexorder" "HOL-Library.Char_ord" "HOL-Library.Sublist"
    "HOL-Library.Multiset"
begin

section \<open>Python values\<close>

text \<open>
  A Python \<open>str\<close> is a \<open>string\<close>. The operators \<open><\<close> and \<open>></\<close> on \<open>str\<close> compare
  lexicographically, character by character; that is the order of \<open>List_Lexorder\<close> over
  \<open>Char_ord\<close>. Exceptions are values of \<open>error\<close>; a method that may raise returns
  \<open>error + 'a\<close> with \<open>Inl\<close> for the exception.
\<close>

datatype error =
    AttributeError
  | KeyError
  | TypeError
  | ValueError
  | OSError
  | JSONDecodeError
  | InvalidTrackerData
  | GLibError

definition bind_err :: "error + 'a \<Rightarrow> ('a \<Rightarrow> error + 'b) \<Rightarrow> error + 'b" where
  "bind_err m f = (case m of Inl e \<Rightarrow> Inl e | Inr x \<Rightarrow> f x)"

section \<open>Classes.py: class Update\<close>

text \<open>
  \<open>source_packages\<close> is a Python \<open>set\<close> when the object is built from a package and a
  \<open>list\<close> when it is built by \<open>parse\<close>. Attributes that a constructor path may leave
  unassigned (\<open>type\<close>, \<open>origin\<close>, \<open>site\<close>, \<open>package_name\<close>) are options, \<open>None\<close> standing
  for the missing attribute; \<open>main_package_name\<close> is an option because \<open>add_package\<close> tests
  it against Python's \<open>None\<close>.
\<close>

datatype str_collection = PySet "string set" | PyList "string list"

record Update =
  package_names :: "string list"
  source_packages :: str_collection
  main_package_name :: "string option"
  package_name :: "string option"
  new_version :: string
  old_version :: string
  size_bytes :: int
  real_source_name :: string
  source_name :: string
  display_name :: string
  short_description :: string
  description :: string
  archive :: string
  update_type :: "string option"
  origin :: "string option"
  site :: "string option"

text \<open>
  The package manager's objects: an origin of a version, a version (the candidate or the
  installed one) and a package. The fields \<open>o_*\<close> are \<open>origin.origin\<close>, \<open>origin.site\<close>,
  \<open>origin.archive\<close>, \<open>origin.label\<close>, \<open>origin.component\<close>; the fields \<open>v_*\<close> are
  those of \<open>package.candidate\<close>; \<open>pkg_name\<close> is \<open>package.name\<close>.
\<close>

record origin_rec =
  o_origin :: string
  o_site :: string
  o_archive :: string
  o_label :: string
  o_component :: string

record version_rec =
  v_version :: string
  v_size :: int
  v_source_name :: string
  v_source_version :: string
  v_raw_description :: string
  v_description :: string
  v_section :: string
  v_origins :: "origin_rec list"

record package =
  pkg_name :: string
  candidate :: version_rec
  installed :: "version_rec option"

text \<open>
  The loop over \<open>package.candidate.origins\<close> in \<open>Update.__init__\<close>; a \<open>break\<close> ends
  the recursion. \<open>source_name_arg\<close> is the constructor's argument \<open>source_name\<close>
  (\<open>None\<close> when no alias is passed).
\<close>

fun origin_loop :: "string option \<Rightarrow> origin_rec list \<Rightarrow> Update \<Rightarrow> Update" where
  "origin_loop source_name_arg [] self = self"
| "origin_loop source_name_arg (origin_r # rest) self =
     (let self1 = self\<lparr>origin := Some (o_origin origin_r), site := Some (o_site origin_r),
                        archive := o_archive origin_r\<rparr>;
          self2 = (if o_origin origin_r = ''Ubuntu'' then self1\<lparr>origin := Some ''ubuntu''\<rparr>
                   else if o_origin origin_r = ''Debian'' then self1\<lparr>origin := Some ''debian''\<rparr>
                   else if prefix ''LP-PPA'' (o_origin origin_r)
                   then self1\<lparr>origin := Some (o_origin origin_r)\<rparr>
                   else self1)
      in if o_origin origin_r = ''Ubuntu'' \<and> sublist ''-security'' (o_archive origin_r)
         then self2\<lparr>update_type := Some ''security''\<rparr>
         else if o_origin origin_r = ''Debian'' \<and> sublist ''-Security'' (o_label origin_r)
         then self2\<lparr>update_type := Some ''security''\<rparr>
         else if source_name_arg \<in> {Some ''firefox'', Some ''thunderbird'', Some ''chromium''}
         then self2\<lparr>update_type := Some ''security''\<rparr>
         else if o_origin origin_r = ''linuxmint'' \<and> o_component origin_r = ''romeo''
         then self2\<lparr>update_type := Some ''unstable''\<rparr>
         else origin_loop source_name_arg rest self2)"

text \<open>\<open>Update.__init__\<close> with a package.\<close>

definition Update_init :: "package \<Rightarrow> string option \<Rightarrow> Update" where
  "Update_init package source_name_arg =
     (let self0 =
        \<lparr>package_names = [pkg_name package],
         source_packages = PySet {v_source_name (candidate package) @ ''='' @
                                  v_source_version (candidate package)},
         main_package_name = Some (pkg_name package),
         package_name = Some (pkg_name package),
         new_version = v_version (candidate package),
         old_version = (case installed package of None \<Rightarrow> [] | Some i \<Rightarrow> v_version i),
         size_bytes = v_size (candidate package),
         real_source_name = v_source_name (candidate package),
         source_name = (case source_name_arg of Some s \<Rightarrow> s
                        | None \<Rightarrow> v_source_name (candidate package)),
         display_name = (case source_name_arg of Some s \<Rightarrow> s
                         | None \<Rightarrow> v_source_name (candidate package)),
         short_description = v_raw_description (candidate package),
         description = v_description (candidate package),
         archive = [],
         update_type = None, origin = None, site = None\<rparr>
      in if new_version self0 \<noteq> old_version self0
         then (let self1 = origin_loop source_name_arg (v_origins (candidate package))
                             (self0\<lparr>update_type := Some ''package'', origin := Some []\<rparr>)
               in if v_section (candidate package) = ''kernel'' \<or>
                     prefix ''linux-headers'' (pkg_name package) \<or>
                     real_source_name self1 \<in>
                       {''linux'', ''linux-kernel'', ''linux-signed'', ''linux-meta''}
                  then self1\<lparr>update_type := Some ''kernel''\<rparr> else self1)
         else self0)"





text \<open>
  \<open>Update.overwrite_main_package\<close> and \<open>Update.add_package\<close>. \<open>source_packages.add\<close>
  exists on a set only: on an object built by \<open>parse\<close> it raises \<open>AttributeError\<close>.
  Each \<open>for\<close> loop returns at its first hit, so it is an existence test over its list.
\<close>

definition overwrite_main_package :: "Update \<Rightarrow> package \<Rightarrow> Update" where
  "overwrite_main_package self pkg =
     self\<lparr>description := v_description (candidate pkg),
          short_description := v_raw_description (candidate pkg),
          main_package_name := Some (pkg_name pkg)\<rparr>"

definition add_package :: "Update \<Rightarrow> package \<Rightarrow> error + Update" where
  "add_package self pkg =
     (let self1 = self\<lparr>package_names := package_names self @ [pkg_name pkg]\<rparr>
      in case source_packages self1 of
           PyList l \<Rightarrow> Inl AttributeError
         | PySet sp \<Rightarrow>
             (let self2 = self1
                    \<lparr>source_packages :=
                       PySet (insert (v_source_name (candidate pkg) @ ''='' @
                                      v_source_version (candidate pkg)) sp),
                     size_bytes := size_bytes self1 + v_size (candidate pkg)\<rparr>
              in case main_package_name self2 of
                   None \<Rightarrow> Inr (overwrite_main_package self2 pkg)
                 | Some main \<Rightarrow>
                     if pkg_name pkg = source_name self2
                     then Inr (overwrite_main_package self2 pkg)
                     else if main \<noteq> source_name self2
                     then (if list_ex (\<lambda>sfx. suffix sfx main \<and> \<not> suffix sfx (pkg_name pkg))
                                [''-dev'', ''-dbg'', ''-common'', ''-core'', ''-data'', ''-doc'',
                                 '':i386'', '':amd64'']
                           then Inr (overwrite_main_package self2 pkg)
                           else if list_ex (\<lambda>pfx. prefix pfx main \<and> \<not> prefix pfx (pkg_name pkg))
                                     [''lib'', ''gir1.2'']
                           then Inr (overwrite_main_package self2 pkg)
                           else if list_ex (\<lambda>kw. sublist kw main \<and> \<not> sublist kw (pkg_name pkg))
                                     [''-locale-'', ''-l10n-'', ''-help-'']
                           then Inr (overwrite_main_package self2 pkg)
                           else Inr self2)
                     else Inr self2))"

text \<open>
  The replacement rules in words. \<open>stated_replacement\<close> chains rules (a) to (d);
  \<open>replacement\<close> applies (b) to (d) only while the main package is not the one named
  like the source.
\<close>

definition rule_a :: "Update \<Rightarrow> package \<Rightarrow> bool" where
  "rule_a self pkg = (main_package_name self = None \<or> pkg_name pkg = source_name self)"

definition rule_b :: "Update \<Rightarrow> package \<Rightarrow> bool" where
  "rule_b self pkg =
     (case main_package_name self of
        None \<Rightarrow> False
      | Some main \<Rightarrow>
          list_ex (\<lambda>sfx. suffix sfx main \<and> \<not> suffix sfx (pkg_name pkg))
            [''-dev'', ''-dbg'', ''-common'', ''-core'', ''-data'', ''-doc'', '':i386'', '':amd64''])"

definition rule_c :: "Update \<Rightarrow> package \<Rightarrow> bool" where
  "rule_c self pkg =
     (case main_package_name self of
        None \<Rightarrow> False
      | Some main \<Rightarrow>
          list_ex (\<lambda>pfx. prefix pfx main \<and> \<not> prefix pfx (pkg_name pkg)) [''lib'', ''gir1.2''])"

definition rule_d :: "Update \<Rightarrow> package \<Rightarrow> bool" where
  "rule_d self pkg =
     (case main_package_name self of
        None \<Rightarrow> False
      | Some main \<Rightarrow>
          list_ex (\<lambda>kw. sublist kw main \<and> \<not> sublist kw (pkg_name pkg))
            [''-locale-'', ''-l10n-'', ''-help-''])"

definition stated_replacement :: "Update \<Rightarrow> package \<Rightarrow> bool" where
  "stated_replacement self pkg = (rule_a self pkg \<or> rule_b self pkg \<or> rule_c self pkg \<or> rule_d self pkg)"

definition replacement :: "Update \<Rightarrow> package \<Rightarrow> bool" where
  "replacement self pkg =
     (rule_a self pkg \<or>
      main_package_name self \<noteq> Some (source_name self) \<and>
      (rule_b self pkg \<or> rule_c self pkg \<or> rule_d self pkg))"

section \<open>Classes.py: class UpdateTracker\<close>

text \<open>
  \<open>tracked_updates\<close> is the dictionary that \<open>record\<close> writes:
  \<open>{"updates": {name: {"type", "since", "days"}}, "version", "checked", "notified"}\<close>.
  The settings object is the record of the keys the tracker reads.
\<close>

record update_record =
  rec_type :: string
  since :: string
  days :: int

record tracked_data =
  updates :: "string \<rightharpoonup> update_record"
  version :: int
  checked :: string
  notified :: string

record gsettings =
  tracker_disable_notifications :: bool
  tracker_days_between_notifications :: int
  tracker_max_days :: int
  tracker_max_age :: int
  tracker_grace_period :: int
  install_last_run :: int

record tracker =
  test_mode :: bool
  tracker_version :: int
  settings :: gsettings
  tracked_updates :: tracked_data
  refreshed_update_names :: "string list"
  today :: string
  max_days :: int
  oldest_since_date :: string
  active :: bool
  security_only :: bool

text \<open>
  \<open>UpdateTracker.update\<close>. The name is appended first; reading \<open>update.type\<close> raises
  \<open>AttributeError\<close> when the attribute was never assigned.
\<close>

definition update :: "tracker \<Rightarrow> Update \<Rightarrow> error + tracker" where
  "update self u =
     (let self1 = self\<lparr>refreshed_update_names :=
                         refreshed_update_names self @ [real_source_name u]\<rparr>
      in case update_type u of
           None \<Rightarrow> Inl AttributeError
         | Some ty \<Rightarrow>
             let tu = tracked_updates self1;
                 rec = (case updates tu (real_source_name u) of
                          None \<Rightarrow> \<lparr>rec_type = ty, since = today self1, days = 1\<rparr>
                        | Some r \<Rightarrow>
                            (let r1 = r\<lparr>rec_type := ty\<rparr>
                             in if today self1 > checked tu
                                then r1\<lparr>days := days r1 + 1\<rparr> else r1));
                 self2 = self1\<lparr>tracked_updates :=
                                  tu\<lparr>updates := (updates tu)(real_source_name u \<mapsto> rec)\<rparr>\<rparr>
             in Inr (if ty \<in> {''security'', ''kernel''} \<or> \<not> security_only self2
                     then self2\<lparr>max_days := max (max_days self2) (days rec),
                                oldest_since_date := min (oldest_since_date self2) (since rec)\<rparr>
                     else self2))"

text \<open>One run: the updates found are observed one after the other.\<close>

fun update_all :: "tracker \<Rightarrow> Update list \<Rightarrow> error + tracker" where
  "update_all self [] = Inr self"
| "update_all self (u # us) = bind_err (update self u) (\<lambda>self'. update_all self' us)"

text \<open>
  \<open>UpdateTracker.record\<close>: keeps the records whose name was refreshed in this run and
  stamps \<open>checked\<close> (the file write is not modelled).
\<close>

definition record_run :: "tracker \<Rightarrow> tracker" where
  "record_run self =
     self\<lparr>tracked_updates := (tracked_updates self)
       \<lparr>updates := (\<lambda>name. if name \<in> set (refreshed_update_names self)
                            then updates (tracked_updates self) name else None),
        checked := today self\<rparr>\<rparr>"

text \<open>The days counter of a name, \<open>None\<close> when the name has no record.\<close>

definition days_of :: "tracker \<Rightarrow> string \<Rightarrow> int option" where
  "days_of self name = map_option days (updates (tracked_updates self) name)"

definition days_after :: "tracker \<Rightarrow> Update list \<Rightarrow> string \<Rightarrow> int option" where
  "days_after self us name =
     (case update_all self us of Inl e \<Rightarrow> None | Inr self' \<Rightarrow> days_of self' name)"

text \<open>
  The calendar is the standard library's: \<open>date_today\<close> is the ordinal of
  \<open>datetime.date.today()\<close>, \<open>strptime s fmt\<close> the ordinal of
  \<open>datetime.strptime(s, fmt).date()\<close> (\<open>None\<close> when it raises \<open>ValueError\<close>) and
  \<open>fromtimestamp ts\<close> the ordinal of \<open>datetime.fromtimestamp(ts).date()\<close> (\<open>None\<close> when
  the timestamp is out of range). The difference of two ordinals is the \<open>.days\<close> of the
  difference of the dates.
\<close>

record clock =
  date_today :: int
  strptime :: "string \<Rightarrow> string \<Rightarrow> int option"
  fromtimestamp :: "int \<Rightarrow> int option"

definition get_days_since_date :: "clock \<Rightarrow> string \<Rightarrow> string \<Rightarrow> error + int" where
  "get_days_since_date clk date_str date_format =
     (if date_str \<noteq> []
      then (case strptime clk date_str date_format of
              None \<Rightarrow> Inl ValueError
            | Some d \<Rightarrow> Inr (date_today clk - d))
      else Inr 999)"

definition get_days_since_timestamp :: "clock \<Rightarrow> int \<Rightarrow> error + int" where
  "get_days_since_timestamp clk timestamp =
     (if timestamp \<noteq> 0
      then (case fromtimestamp clk timestamp of
              None \<Rightarrow> Inl OSError
            | Some d \<Rightarrow> Inr (date_today clk - d))
      else Inr 999)"

text \<open>
  \<open>UpdateTracker.notify\<close>. The argument \<open>last_apt_upgrade\<close> is what
  \<open>get_latest_apt_upgrade()\<close> returns (the newest \<open>End-Date\<close> of the apt history, or
  \<open>None\<close>); the log is read outside the tracker. The result is the returned boolean and
  the tracker, whose \<open>notified\<close> date is stamped when the answer is \<open>True\<close>. The
  body is cut at its blank lines: the threshold test, the two suppression tests, and the
  decision that follows the rate limit.
\<close>

definition notification_needed_by_age :: "clock \<Rightarrow> tracker \<Rightarrow> error + bool" where
  "notification_needed_by_age clk self =
     (if max_days self \<ge> tracker_max_days (settings self) then Inr True
      else bind_err (get_days_since_date clk (oldest_since_date self) ''%Y.%m.%d'')
             (\<lambda>max_age. Inr (max_age \<ge> tracker_max_age (settings self))))"

definition suppress_by_apt :: "clock \<Rightarrow> string option \<Rightarrow> tracker \<Rightarrow> bool \<Rightarrow> error + bool" where
  "suppress_by_apt clk last_apt_upgrade self notification_needed =
     (case last_apt_upgrade of
        None \<Rightarrow> Inr notification_needed
      | Some d \<Rightarrow>
          if d \<noteq> []
          then bind_err (get_days_since_date clk d ''%Y-%m-%d'')
                 (\<lambda>last_apt_upgrade_age.
                    if last_apt_upgrade_age \<le> tracker_grace_period (settings self)
                    then Inr False else Inr notification_needed)
          else Inr notification_needed)"

definition suppress_recent :: "clock \<Rightarrow> string option \<Rightarrow> tracker \<Rightarrow> bool \<Rightarrow> error + bool" where
  "suppress_recent clk last_apt_upgrade self notification_needed =
     (if \<not> test_mode self
      then bind_err (get_days_since_timestamp clk (install_last_run (settings self)))
             (\<lambda>last_install_age.
                if last_install_age \<le> tracker_grace_period (settings self) then Inr False
                else suppress_by_apt clk last_apt_upgrade self notification_needed)
      else Inr notification_needed)"

definition stamp_notified :: "tracker \<Rightarrow> tracker" where
  "stamp_notified self =
     self\<lparr>tracked_updates := (tracked_updates self)\<lparr>notified := today self\<rparr>\<rparr>"

definition notify_decide :: "clock \<Rightarrow> string option \<Rightarrow> tracker \<Rightarrow> error + (bool \<times> tracker)" where
  "notify_decide clk last_apt_upgrade self =
     bind_err (notification_needed_by_age clk self)
       (\<lambda>needed0. bind_err (suppress_recent clk last_apt_upgrade self needed0)
          (\<lambda>notification_needed.
             if notification_needed then Inr (True, stamp_notified self)
             else Inr (False, self)))"

definition notify :: "clock \<Rightarrow> string option \<Rightarrow> tracker \<Rightarrow> error + (bool \<times> tracker)" where
  "notify clk last_apt_upgrade self =
     (if tracker_disable_notifications (settings self) then Inr (False, self)
      else bind_err (get_days_since_date clk (notified (tracked_updates self)) ''%Y.%m.%d'')
        (\<lambda>notified_age.
           if notified_age < tracker_days_between_notifications (settings self)
           then Inr (False, self)
           else notify_decide clk last_apt_upgrade self))"

subsection \<open>Loading the persisted state\<close>

text \<open>
  What \<open>json.load\<close> returns. Numbers are the integers that \<open>record\<close> writes (floats
  are not modelled); an object keeps its pairs in file order and a lookup takes the last
  pair of a repeated key, as the decoder's dictionary does.
\<close>

datatype json =
    JNull
  | JBool bool
  | JInt int
  | JStr string
  | JArr "json list"
  | JObj "(string \<times> json) list"

text \<open>
  Subscription \<open>d[k]\<close> with a string key, \<open>v < n\<close> against an int and \<open>v > s\<close> against
  a string: each raises \<open>TypeError\<close> on a value of another type (a \<open>bool\<close> is an int).
\<close>

fun getitem :: "json \<Rightarrow> string \<Rightarrow> error + json" where
  "getitem (JObj kvs) k =
     (case map_of (rev kvs) k of None \<Rightarrow> Inl KeyError | Some v \<Rightarrow> Inr v)"
| "getitem _ k = Inl TypeError"

fun lt_int :: "json \<Rightarrow> int \<Rightarrow> error + bool" where
  "lt_int (JInt v) n = Inr (v < n)"
| "lt_int (JBool b) n = Inr ((if b then 1 else 0) < n)"
| "lt_int _ n = Inl TypeError"

fun gt_str :: "json \<Rightarrow> string \<Rightarrow> error + bool" where
  "gt_str (JStr v) s = Inr (v > s)"
| "gt_str _ s = Inl TypeError"

text \<open>
  \<open>open(self.path)\<close> and \<open>json.load(f)\<close>: the file's body is \<open>None\<close> when the file
  cannot be opened, and the decoder \<open>json_loads\<close> answers \<open>None\<close> when it raises
  \<open>JSONDecodeError\<close>.
\<close>

definition load_tracker_file ::
  "(string \<Rightarrow> json option) \<Rightarrow> string option \<Rightarrow> error + json" where
  "load_tracker_file json_loads content =
     (case content of
        None \<Rightarrow> Inl OSError
      | Some body \<Rightarrow>
          (case json_loads body of None \<Rightarrow> Inl JSONDecodeError | Some j \<Rightarrow> Inr j))"

text \<open>
  \<open>_validate_tracker_data\<close> on the loaded dictionary; the three tests are joined by
  \<open>or\<close>, so a later one is evaluated only when the earlier ones are false. The result is
  the new value of \<open>self.active\<close>.
\<close>

definition validate_tracker_data :: "int \<Rightarrow> string \<Rightarrow> bool \<Rightarrow> json \<Rightarrow> error + bool" where
  "validate_tracker_data tv tday act j =
     bind_err
       (bind_err (getitem j ''version'') (\<lambda>v. bind_err (lt_int v tv) (\<lambda>older.
          if older then Inr True
          else bind_err (getitem j ''checked'') (\<lambda>c. bind_err (gt_str c tday)
            (\<lambda>checked_later.
               if checked_later then Inr True
               else bind_err (getitem j ''notified'') (\<lambda>n. gt_str n tday))))))
       (\<lambda>invalid.
          if invalid then Inl InvalidTrackerData
          else bind_err (getitem j ''checked'')
                 (\<lambda>c. Inr (if c = JStr tday then False else act)))"

definition fresh_tracked_updates :: "int \<Rightarrow> string \<Rightarrow> json" where
  "fresh_tracked_updates tv tday =
     JObj [(''updates'', JObj []), (''version'', JInt tv), (''checked'', JStr tday),
           (''notified'', JStr tday)]"

text \<open>
  \<open>_initialize_tracker\<close>: \<open>except Exception\<close> catches every error of the \<open>try\<close> block.
  The result is \<open>self.tracked_updates\<close> and \<open>self.active\<close> (\<open>True\<close> before the call).
\<close>

definition initialize_tracker ::
  "(string \<Rightarrow> json option) \<Rightarrow> int \<Rightarrow> string \<Rightarrow> string option \<Rightarrow> json \<times> bool" where
  "initialize_tracker json_loads tv tday content =
     (case bind_err (load_tracker_file json_loads content)
             (\<lambda>j. bind_err (validate_tracker_data tv tday True j) (\<lambda>act. Inr (j, act))) of
        Inl e \<Rightarrow> (fresh_tracked_updates tv tday, True)
      | Inr r \<Rightarrow> r)"

section \<open>Strings\<close>

text \<open>
  \<open>str.split(sep)\<close> for a non-empty separator: the occurrences of \<open>sep\<close> are found from
  the left and do not overlap; the result always has at least one element. (Python
  raises \<open>ValueError\<close> on the empty separator; every separator below is a literal.)
\<close>

fun split_str :: "string \<Rightarrow> string \<Rightarrow> string list" where
  "split_str sep [] = [[]]"
| "split_str sep (c # cs) =
     (if sep \<noteq> [] \<and> prefix sep (c # cs)
      then [] # split_str sep (drop (length sep) (c # cs))
      else (case split_str sep cs of
              [] \<Rightarrow> [[c]]
            | w # ws \<Rightarrow> (c # w) # ws))"

section \<open>flatpak-update-worker.py and class FlatpakUpdate\<close>

text \<open>
  \<open>Flatpak.Ref.parse\<close> is the library's: a ref is \<open>kind/name/arch/branch\<close> with kind
  \<open>app\<close> or \<open>runtime\<close>, anything else raises \<open>GLib.Error\<close> (the library also rejects
  malformed names, which is not modelled). A key file is a list of groups, each a list of
  keys; \<open>get_string\<close> raises when the group or the key is missing.
\<close>

record flatpak_ref =
  get_kind :: string
  get_name :: string
  get_arch :: string
  get_branch :: string

definition ref_parse :: "string \<Rightarrow> error + flatpak_ref" where
  "ref_parse s =
     (case split_str ''/'' s of
        [k, n, a, b] \<Rightarrow>
          if k = ''app'' \<or> k = ''runtime''
          then Inr \<lparr>get_kind = k, get_name = n, get_arch = a, get_branch = b\<rparr>
          else Inl GLibError
      | _ \<Rightarrow> Inl GLibError)"

type_synonym keyfile = "(string \<times> (string \<times> string) list) list"

definition get_string :: "keyfile \<Rightarrow> string \<Rightarrow> string \<Rightarrow> error + string" where
  "get_string kf grp key =
     (case map_of kf grp of
        None \<Rightarrow> Inl GLibError
      | Some kvs \<Rightarrow> (case map_of kvs key of None \<Rightarrow> Inl GLibError | Some v \<Rightarrow> Inr v))"

text \<open>
  A transaction operation, and the attributes of \<open>FlatpakUpdate\<close> that the worker's
  grouping reads, as \<open>FlatpakUpdate.__init__\<close> sets them from the operation and its
  parsed ref.
\<close>

record operation =
  get_ref :: string
  get_metadata :: "keyfile option"
  get_download_size :: int

record FlatpakUpdate =
  ref_name :: string
  metadata :: "keyfile option"
  size_f :: int
  flatpak_type :: string

definition FlatpakUpdate_init :: "operation \<Rightarrow> flatpak_ref \<Rightarrow> FlatpakUpdate" where
  "FlatpakUpdate_init op ref =
     \<lparr>ref_name = get_name ref, metadata = get_metadata op, size_f = get_download_size op,
      flatpak_type = (if get_kind ref = ''app'' then ''app'' else ''runtime'')\<rparr>"

text \<open>
  \<open>is_base_package\<close>: every exception of the \<open>try\<close> block (a missing key file, group or
  key, a ref that does not parse) gives \<open>False\<close>.
\<close>

definition is_base_package :: "FlatpakUpdate \<Rightarrow> bool" where
  "is_base_package upd =
     (let name = ref_name upd
      in if prefix ''app'' name then True
         else (case metadata upd of
                 None \<Rightarrow> False
               | Some kf \<Rightarrow>
                   (case bind_err (get_string kf ''Runtime'' ''runtime'')
                           (\<lambda>rt. ref_parse (''runtime/'' @ rt)) of
                      Inl e \<Rightarrow> False
                    | Inr runtime_ref \<Rightarrow> name = get_name runtime_ref)))"

text \<open>
  \<open>list.sort\<close> is stable. With \<open>cmp_to_key(cmp)\<close> an element stays behind another
  exactly when \<open>cmp\<close> of the two is negative; with a key function it is the library's
  stable \<open>sort_key\<close>.
\<close>

fun insort_cmp :: "('a \<Rightarrow> 'a \<Rightarrow> int) \<Rightarrow> 'a \<Rightarrow> 'a list \<Rightarrow> 'a list" where
  "insort_cmp cmp x [] = [x]"
| "insort_cmp cmp x (y # ys) =
     (if cmp y x < 0 then y # insort_cmp cmp x ys else x # y # ys)"

definition sort_cmp :: "('a \<Rightarrow> 'a \<Rightarrow> int) \<Rightarrow> 'a list \<Rightarrow> 'a list" where
  "sort_cmp cmp xs = foldr (insort_cmp cmp) xs []"

definition name_of_ref :: "string \<Rightarrow> string" where
  "name_of_ref r = (case ref_parse r of Inl e \<Rightarrow> [] | Inr ref \<Rightarrow> get_name ref)"

definition cmp_ref_name :: "operation \<Rightarrow> operation \<Rightarrow> int" where
  "cmp_ref_name a b =
     int (length (split_str ''.'' (name_of_ref (get_ref a)))) -
     int (length (split_str ''.'' (name_of_ref (get_ref b))))"

text \<open>
  The two \<open>ops.sort\<close> calls of \<open>_process_fetch_task\<close>, in the order of the source: by
  \<open>cmp_ref_name\<close> first, by ref name second. The result is the order in which the loop
  processes the operations; a ref that does not parse raises out of the sort.
\<close>

definition sorted_operations :: "operation list \<Rightarrow> error + operation list" where
  "sorted_operations ops =
     (if list_ex (\<lambda>op. isl (ref_parse (get_ref op))) ops then Inl GLibError
      else Inr (sort_key (\<lambda>op. name_of_ref (get_ref op)) (sort_cmp cmp_ref_name ops)))"

definition segments :: "operation \<Rightarrow> nat" where
  "segments op = length (split_str ''.'' (name_of_ref (get_ref op)))"

section \<open>Classes.py: class KernelVersion\<close>

text \<open>
  \<open>KernelVersion.__init__\<close>, the value being the list \<open>self.version_id\<close>.
  \<open>replace("-", ".")\<close> maps over the characters; \<open>isnumeric\<close> is taken on ASCII digits
  (Python also accepts other Unicode numerals); \<open>"0" * n\<close> is empty for a negative
  \<open>n\<close>, which the truncating subtraction gives; the \<open>while\<close> loop appends \<open>"000"\<close>
  until there are four fields; \<open>compact\<close> is \<open>x[:1].lstrip("0") + x[1:]\<close>; the suffix is
  the first component starting with \<open>rc\<close>, or \<open>z\<close>. Python compares two such lists
  lexicographically, as the order on \<open>string list\<close> does.
\<close>

definition replace_char :: "char \<Rightarrow> char \<Rightarrow> string \<Rightarrow> string" where
  "replace_char a b s = map (\<lambda>c. if c = a then b else c) s"

definition isnumeric :: "string \<Rightarrow> bool" where
  "isnumeric s = (s \<noteq> [] \<and> list_all (\<lambda>c. c \<in> set ''0123456789'') s)"

definition pad_field :: "string \<Rightarrow> string" where
  "pad_field element = replicate (3 - length element) (CHR ''0'') @ element"

function pad_fields :: "string list \<Rightarrow> string list" where
  "pad_fields version_id =
     (if length version_id < 4 then pad_fields (version_id @ [replicate 3 (CHR ''0'')])
      else version_id)"
  by pat_completeness auto
termination
  by (relation "measure (\<lambda>version_id. 4 - length version_id)") auto

declare pad_fields.simps [simp del]

definition compact :: "string \<Rightarrow> string" where
  "compact x = dropWhile (\<lambda>c. c = CHR ''0'') (take 1 x) @ drop 1 x"

definition kernel_fields :: "string \<Rightarrow> string list" where
  "kernel_fields ver = split_str ''.'' (replace_char (CHR ''-'') (CHR ''.'') ver)"

definition rc_suffix :: "string list \<Rightarrow> string" where
  "rc_suffix parts =
     (case find (prefix ''rc'') parts of
        None \<Rightarrow> ''z''
      | Some x \<Rightarrow> if x = [] then ''z'' else x)"

definition finish_version_id :: "string \<Rightarrow> string list \<Rightarrow> string list" where
  "finish_version_id suffix_str version_id =
     (if length version_id = 4
      then version_id @ [concat (map compact version_id) @ suffix_str]
      else if length version_id > 4 \<and> length (version_id ! 4) = 6
      then version_id[4 := version_id ! 4 @ suffix_str]
      else version_id)"

definition KernelVersion :: "string \<Rightarrow> string list" where
  "KernelVersion ver =
     (let parts = kernel_fields ver
      in finish_version_id (rc_suffix parts)
           (pad_fields (map pad_field (filter isnumeric parts))))"

section \<open>Classes.py: Update.serialize and Update.parse\<close>


























section \<open>Example inputs\<close>

definition example_update :: Update where
  "example_update =
     \<lparr>package_names = [''firefox''], source_packages = PySet {''firefox=120.0''},
      main_package_name = Some ''firefox'', package_name = Some ''firefox'',
      new_version = ''120.0'', old_version = ''119.0'', size_bytes = 1000,
      real_source_name = ''firefox'', source_name = ''firefox'', display_name = ''firefox'',
      short_description = ''browser'', description = ''browser'', archive = ''focal-security'',
      update_type = Some ''security'', origin = Some ''ubuntu'',
      site = Some ''archive.ubuntu.com''\<rparr>"

definition example_settings :: gsettings where
  "example_settings =
     \<lparr>tracker_disable_notifications = False, tracker_days_between_notifications = 2,
      tracker_max_days = 14, tracker_max_age = 90, tracker_grace_period = 3,
      install_last_run = 1704380000\<rparr>"

definition example_tracker :: tracker where
  "example_tracker =
     \<lparr>test_mode = False, tracker_version = 1, settings = example_settings,
      tracked_updates =
        \<lparr>updates = [''firefox'' \<mapsto> \<lparr>rec_type = ''security'', since = ''2024.01.01'', days = 3\<rparr>],
         version = 1, checked = ''2024.01.04'', notified = ''2024.01.01''\<rparr>,
      refreshed_update_names = [], today = ''2024.01.05'', max_days = 14,
      oldest_since_date = ''2024.01.01'', active = True, security_only = False\<rparr>"

text \<open>
  A clock on 5 January 2024 (ordinal 738890) that knows the dates and the timestamps of
  the examples: 1704380000 is 4 January 2024, 1703000000 is 19 December 2023.
\<close>

definition example_clock :: clock where
  "example_clock =
     \<lparr>date_today = 738890,
      strptime = (\<lambda>s fmt.
         if fmt = ''%Y.%m.%d'' \<and> s = ''2024.01.01'' then Some 738886
         else if fmt = ''%Y.%m.%d'' \<and> s = ''2024.01.05'' then Some 738890
         else if fmt = ''%Y-%m-%d'' \<and> s = ''2023-12-20'' then Some 738874
         else None),
      fromtimestamp = (\<lambda>ts.
         if ts = 1704380000 then Some 738889
         else if ts = 1703000000 then Some 738873
         else None)\<rparr>"


definition never_pressed :: tracker where
  "never_pressed =
     example_tracker
       \<lparr>settings := example_settings\<lparr>install_last_run := 0\<rparr>,
        tracked_updates := (tracked_updates example_tracker)\<lparr>notified := []\<rparr>\<rparr>"

definition never_pressed_999 :: tracker where
  "never_pressed_999 =
     example_tracker
       \<lparr>settings := example_settings\<lparr>install_last_run := 0, tracker_grace_period := 999\<rparr>\<rparr>"

text \<open>
  A tracker file stamped in the future, and a decoder that knows its body.
\<close>

definition example_future_file :: json where
  "example_future_file =
     JObj [(''updates'', JObj []), (''version'', JInt 1), (''checked'', JStr ''2024.02.01''),
           (''notified'', JStr ''2024.01.01'')]"

definition example_json_loads :: "string \<Rightarrow> json option" where
  "example_json_loads body = (if body = ''future'' then Some example_future_file else None)"

text \<open>
  Flatpak operations: the GNOME platform runtime, the GL extension of the freedesktop
  platform, and the calculator app with the metadata Flatpak writes for an app.
\<close>

definition op_platform :: operation where
  "op_platform =
     \<lparr>get_ref = ''runtime/org.gnome.Platform/x86_64/45'',
      get_metadata = Some [(''Runtime'', [(''name'', ''org.gnome.Platform''),
                                        (''runtime'', ''org.gnome.Platform/x86_64/45'')])],
      get_download_size = 100\<rparr>"

definition op_gl :: operation where
  "op_gl =
     \<lparr>get_ref = ''runtime/org.freedesktop.Platform.GL.default/x86_64/23.08'',
      get_metadata = Some [(''Runtime'', [(''name'', ''org.freedesktop.Platform.GL.default''),
                                        (''runtime'', ''org.freedesktop.Platform/x86_64/23.08'')])],
      get_download_size = 50\<rparr>"

definition op_calculator :: operation where
  "op_calculator =
     \<lparr>get_ref = ''app/org.gnome.Calculator/x86_64/stable'',
      get_metadata = Some [(''Application'', [(''name'', ''org.gnome.Calculator''),
                                            (''runtime'', ''org.gnome.Platform/x86_64/45'')])],
      get_download_size = 20\<rparr>"

definition calculator_update :: FlatpakUpdate where
  "calculator_update =
     FlatpakUpdate_init op_calculator
       \<lparr>get_kind = ''app'', get_name = ''org.gnome.Calculator'', get_arch = ''x86_64'',
        get_branch = ''stable''\<rparr>"

text \<open>
  Packages: the office suite, two of its binary packages, a kernel headers package
  (scenario B) from the security pocket, and the browser from the updates pocket.
\<close>

definition libreoffice_pkg :: package where
  "libreoffice_pkg =
     \<lparr>pkg_name = ''libreoffice'',
      candidate = \<lparr>v_version = ''7.6.4'', v_size = 5000, v_source_name = ''libreoffice'',
                   v_source_version = ''7.6.4'', v_raw_description = ''office suite'',
                   v_description = ''office productivity suite'', v_section = ''editors'',
                   v_origins = [\<lparr>o_origin = ''Ubuntu'', o_site = ''archive.ubuntu.com'',
                                  o_archive = ''jammy-updates'', o_label = ''Ubuntu'',
                                  o_component = ''main''\<rparr>]\<rparr>,
      installed = None\<rparr>"

definition uno_pkg :: package where
  "uno_pkg =
     \<lparr>pkg_name = ''python3-uno'',
      candidate = \<lparr>v_version = ''7.6.4'', v_size = 300, v_source_name = ''libreoffice'',
                   v_source_version = ''7.6.4'', v_raw_description = ''python bridge'',
                   v_description = ''python-UNO bridge'', v_section = ''python'',
                   v_origins = []\<rparr>,
      installed = None\<rparr>"

definition common_pkg :: package where
  "common_pkg =
     \<lparr>pkg_name = ''libreoffice-common'',
      candidate = \<lparr>v_version = ''7.6.4'', v_size = 700, v_source_name = ''libreoffice'',
                   v_source_version = ''7.6.4'', v_raw_description = ''common files'',
                   v_description = ''architecture-independent files'', v_section = ''editors'',
                   v_origins = []\<rparr>,
      installed = None\<rparr>"



definition libreoffice_update :: Update where
  "libreoffice_update = Update_init libreoffice_pkg (Some ''libreoffice'')"

definition common_update :: Update where
  "common_update = Update_init common_pkg (Some ''libreoffice'')"




section \<open>Properties of the staleness tracker\<close>

lemma update_frame:
  assumes "update self u = Inr self'"
  shows "today self' = today self"
    and "checked (tracked_updates self') = checked (tracked_updates self)"
  using assms by (auto simp: update_def Let_def split: option.splits if_splits)

lemma update_days_step:
  assumes "updates (tracked_updates self) n = Some r" and "update self u = Inr self'"
  shows "\<exists>r'. updates (tracked_updates self') n = Some r' \<and>
           days r' = days r + (if real_source_name u = n \<and>
                                  today self > checked (tracked_updates self) then 1 else 0)"
  using assms by (auto simp: update_def Let_def split: option.splits if_splits)

lemma update_returns:
  assumes "update_type u \<noteq> None"
  shows "\<exists>self'. update self u = Inr self'"
  using assms by (auto simp: update_def Let_def split: option.splits)

lemma update_all_returns:
  "\<forall>u \<in> set us. update_type u \<noteq> None \<Longrightarrow> \<exists>self'. update_all self us = Inr self'"
proof (induction us arbitrary: self)
  case Nil
  show ?case by simp
next
  case (Cons u us)
  then obtain s1 where "update self u = Inr s1"
    using update_returns[of u self] by auto
  with Cons show ?case by (simp add: bind_err_def)
qed

lemma update_all_days:
  "updates (tracked_updates self) n = Some r \<Longrightarrow> update_all self us = Inr self' \<Longrightarrow>
   days_of self' n =
     Some (days r + (if today self > checked (tracked_updates self)
                     then int (count_list (map real_source_name us) n) else 0))"
proof (induction us arbitrary: self r)
  case Nil
  then show ?case by (simp add: days_of_def)
next
  case (Cons u us)
  from Cons.prems(2) obtain s1
    where s1: "update self u = Inr s1" and rest: "update_all s1 us = Inr self'"
    by (auto simp: bind_err_def split: sum.splits)
  from update_days_step[OF Cons.prems(1) s1] obtain r1
    where r1: "updates (tracked_updates s1) n = Some r1"
      and d1: "days r1 = days r + (if real_source_name u = n \<and>
                                     today self > checked (tracked_updates self) then 1 else 0)"
    by blast
  from Cons.IH[OF r1 rest] show ?case
    using d1 update_frame[OF s1] by auto
qed

text \<open>
  C1 (as stated, refuted). The record of \<open>firefox\<close> has 3 days pending and was checked
  yesterday; observing \<open>firefox\<close> twice in one run leaves it at 5 days: the counter grew
  by 2, not by at most 1.
\<close>

theorem C1_observe_twice_counterexample:
  "days_of example_tracker ''firefox'' = Some 3 \<and>
   days_after example_tracker [example_update, example_update] ''firefox'' = Some 5"
  by (simp add: days_after_def days_of_def example_tracker_def example_update_def update_def
      bind_err_def Let_def)

text \<open>
  C1 (amended). In one run, that is before \<open>record\<close> advances \<open>checked\<close>, every
  \<open>update\<close> call that names an existing record adds exactly 1 to its \<open>days\<close> when
  \<open>checked < today\<close> and nothing otherwise: after the run the counter has grown by the
  number of calls that named the record, or not at all when \<open>checked\<close> is not before
  \<open>today\<close>. The run returns whenever every observed update has its \<open>type\<close> assigned.
\<close>

theorem C1_days_grow_per_call:
  assumes "updates (tracked_updates self) n = Some r"
    and "\<forall>u \<in> set us. update_type u \<noteq> None"
  shows "days_after self us n =
     Some (days r + (if today self > checked (tracked_updates self)
                     then int (count_list (map real_source_name us) n) else 0))"
proof -
  from update_all_returns[OF assms(2)] obtain self' where run: "update_all self us = Inr self'"
    by blast
  from update_all_days[OF assms(1) run] show ?thesis
    by (simp add: days_after_def run)
qed

theorem C1_days_grow_per_call_witness:
  "updates (tracked_updates example_tracker) ''firefox''
     = Some \<lparr>rec_type = ''security'', since = ''2024.01.01'', days = 3\<rparr> \<and>
   update_type example_update \<noteq> None \<and>
   days_after example_tracker [example_update, example_update] ''firefox'' = Some (3 + 2)"
proof -
  have h1: "updates (tracked_updates example_tracker) ''firefox''
     = Some \<lparr>rec_type = ''security'', since = ''2024.01.01'', days = 3\<rparr>"
    by (simp add: example_tracker_def)
  have h2: "\<forall>u \<in> set [example_update, example_update]. update_type u \<noteq> None"
    by (simp add: example_update_def)
  show ?thesis
    using h1 h2 C1_days_grow_per_call[OF h1 h2]
    by (simp add: example_tracker_def example_update_def)
qed

lemmas notify_defs = notify_def notify_decide_def suppress_recent_def suppress_by_apt_def
  notification_needed_by_age_def bind_err_def stamp_notified_def

lemmas example_defs = example_tracker_def example_settings_def example_clock_def
  example_update_def get_days_since_date_def get_days_since_timestamp_def



text \<open>
  C10 (as stated, refuted). With a grace period of 999 days, which does not exceed 999,
  and the install button never pressed (timestamp 0), the age 999 passes the test
  \<open>last_install_age <= grace\<close>: the manual-run suppression fires and \<open>notify\<close> answers
  \<open>False\<close> although 14 days are pending against a threshold of 14.
\<close>

theorem C10_grace_999_counterexample:
  "tracker_grace_period (settings never_pressed_999) \<le> 999 \<and>
   install_last_run (settings never_pressed_999) = 0 \<and>
   suppress_by_apt example_clock None never_pressed_999 True = Inr True \<and>
   suppress_recent example_clock None never_pressed_999 True = Inr False \<and>
   notify example_clock None never_pressed_999 = Inr (False, never_pressed_999)"
  by (simp add: never_pressed_999_def notify_defs example_defs)

text \<open>
  C10 (amended). The empty date string and the zero timestamp both give 999 days. With
  the timestamp 0 and a grace period strictly below 999 the manual-run test never fires:
  the suppression is decided by the apt log alone. With an empty \<open>notified\<close> date and an
  interval of at most 999 the rate limit never fires: \<open>notify\<close> goes on to the decision.
\<close>

theorem C10_sentinel_999:
  "get_days_since_date clk [] date_format = Inr 999 \<and>
   get_days_since_timestamp clk 0 = Inr 999 \<and>
   (\<not> test_mode self \<and> install_last_run (settings self) = 0 \<and>
    tracker_grace_period (settings self) < 999
      \<longrightarrow> suppress_recent clk last_apt_upgrade self needed
            = suppress_by_apt clk last_apt_upgrade self needed) \<and>
   (\<not> tracker_disable_notifications (settings self) \<and>
    notified (tracked_updates self) = [] \<and>
    tracker_days_between_notifications (settings self) \<le> 999
      \<longrightarrow> notify clk last_apt_upgrade self = notify_decide clk last_apt_upgrade self)"
  by (auto simp: get_days_since_date_def get_days_since_timestamp_def suppress_recent_def
      notify_def bind_err_def)

theorem C10_sentinel_999_witness:
  "install_last_run (settings never_pressed) = 0 \<and>
   tracker_grace_period (settings never_pressed) = 3 \<and>
   notified (tracked_updates never_pressed) = [] \<and>
   suppress_recent example_clock None never_pressed True = Inr True \<and>
   notify example_clock None never_pressed = Inr (True, stamp_notified never_pressed)"
  using C10_sentinel_999 [of example_clock "''%Y.%m.%d''" never_pressed None True]
  by (simp add: never_pressed_def notify_defs example_defs)

lemma validate_version:
  "getitem j ''version'' = Inr (JInt v) \<Longrightarrow> v < tv \<Longrightarrow> validate_tracker_data tv tday act j = Inl InvalidTrackerData"
  by (simp add: validate_tracker_data_def bind_err_def)

lemma validate_checked:
  assumes "getitem j ''checked'' = Inr (JStr c)" and "c > tday"
  shows "\<exists>e. validate_tracker_data tv tday act j = Inl e"
proof (cases "getitem j ''version''")
  case (Inl e)
  then show ?thesis by (simp add: validate_tracker_data_def bind_err_def)
next
  case v: (Inr v)
  show ?thesis
  proof (cases "lt_int v tv")
    case (Inl e)
    with v show ?thesis by (simp add: validate_tracker_data_def bind_err_def)
  next
    case (Inr older)
    with v assms show ?thesis
      by (cases older) (simp_all add: validate_tracker_data_def bind_err_def)
  qed
qed

lemma validate_notified:
  assumes "getitem j ''notified'' = Inr (JStr n)" and "n > tday"
  shows "\<exists>e. validate_tracker_data tv tday act j = Inl e"
proof (cases "getitem j ''version''")
  case (Inl e)
  then show ?thesis by (simp add: validate_tracker_data_def bind_err_def)
next
  case v: (Inr v)
  show ?thesis
  proof (cases "lt_int v tv")
    case (Inl e)
    with v show ?thesis by (simp add: validate_tracker_data_def bind_err_def)
  next
    case older: (Inr older)
    show ?thesis
    proof (cases "getitem j ''checked''")
      case (Inl e)
      with v older show ?thesis
        by (cases older) (simp_all add: validate_tracker_data_def bind_err_def)
    next
      case c: (Inr c)
      show ?thesis
      proof (cases "gt_str c tday")
        case (Inl e)
        with v older c show ?thesis
          by (cases older) (simp_all add: validate_tracker_data_def bind_err_def)
      next
        case (Inr later)
        with v older c assms show ?thesis
          by (cases older; cases later) (simp_all add: validate_tracker_data_def bind_err_def)
      qed
    qed
  qed
qed

text \<open>
  C9. When the tracker file cannot be opened, cannot be decoded, has an integer
  \<open>version\<close> below the expected one, or has a \<open>checked\<close> or \<open>notified\<close> string
  greater than today, \<open>_initialize_tracker\<close> returns normally with the fresh state:
  no updates, \<open>checked\<close> and \<open>notified\<close> both today (and the tracker stays active).
\<close>

theorem C9_invalid_file_starts_fresh:
  assumes "content = None \<or>
     (\<exists>body. content = Some body \<and> json_loads body = None) \<or>
     (\<exists>body j. content = Some body \<and> json_loads body = Some j \<and>
        ((\<exists>v. getitem j ''version'' = Inr (JInt v) \<and> v < tv) \<or>
         (\<exists>c. getitem j ''checked'' = Inr (JStr c) \<and> c > tday) \<or>
         (\<exists>n. getitem j ''notified'' = Inr (JStr n) \<and> n > tday)))"
  shows "initialize_tracker json_loads tv tday content = (fresh_tracked_updates tv tday, True) \<and>
     getitem (fresh_tracked_updates tv tday) ''updates'' = Inr (JObj []) \<and>
     getitem (fresh_tracked_updates tv tday) ''checked'' = Inr (JStr tday) \<and>
     getitem (fresh_tracked_updates tv tday) ''notified'' = Inr (JStr tday)"
proof -
  have fresh: "getitem (fresh_tracked_updates tv tday) ''updates'' = Inr (JObj []) \<and>
     getitem (fresh_tracked_updates tv tday) ''checked'' = Inr (JStr tday) \<and>
     getitem (fresh_tracked_updates tv tday) ''notified'' = Inr (JStr tday)"
    by (simp add: fresh_tracked_updates_def)
  have invalid: "initialize_tracker json_loads tv tday content = (fresh_tracked_updates tv tday, True)"
    if "content = Some body" "json_loads body = Some j" "validate_tracker_data tv tday True j = Inl e"
    for body j e
    using that by (simp add: initialize_tracker_def load_tracker_file_def bind_err_def)
  have "initialize_tracker json_loads tv tday content = (fresh_tracked_updates tv tday, True)"
    using assms
  proof (elim disjE exE conjE)
    assume "content = None"
    then show ?thesis
      by (simp add: initialize_tracker_def load_tracker_file_def bind_err_def)
  next
    fix body assume "content = Some body" "json_loads body = None"
    then show ?thesis
      by (simp add: initialize_tracker_def load_tracker_file_def bind_err_def)
  next
    fix body j v
    assume "content = Some body" "json_loads body = Some j"
      "getitem j ''version'' = Inr (JInt v)" "v < tv"
    then show ?thesis using invalid [OF _ _ validate_version] by simp
  next
    fix body j c
    assume "content = Some body" "json_loads body = Some j"
      "getitem j ''checked'' = Inr (JStr c)" "c > tday"
    with validate_checked [of j c tday tv True] show ?thesis using invalid by auto
  next
    fix body j n
    assume "content = Some body" "json_loads body = Some j"
      "getitem j ''notified'' = Inr (JStr n)" "n > tday"
    with validate_notified [of j n tday tv True] show ?thesis using invalid by auto
  qed
  with fresh show ?thesis by simp
qed


theorem C9_invalid_file_starts_fresh_witness:
  "example_json_loads ''future'' = Some example_future_file \<and>
   getitem example_future_file ''checked'' = Inr (JStr ''2024.02.01'') \<and>
   ''2024.02.01'' > ''2024.01.05'' \<and>
   initialize_tracker example_json_loads 1 ''2024.01.05'' (Some ''future'')
     = (fresh_tracked_updates 1 ''2024.01.05'', True) \<and>
   getitem (fresh_tracked_updates 1 ''2024.01.05'') ''updates'' = Inr (JObj [])"
  using C9_invalid_file_starts_fresh
          [of "Some ''future''" example_json_loads 1 "''2024.01.05''"]
  by (simp add: example_json_loads_def example_future_file_def)

section \<open>Properties of the Flatpak grouping\<close>

lemmas flatpak_defs = sorted_operations_def sort_cmp_def cmp_ref_name_def name_of_ref_def
  ref_parse_def segments_def op_gl_def op_platform_def op_calculator_def

lemma filter_insort_cmp_other:
  "\<not> P x \<Longrightarrow> filter P (insort_cmp cmp x ys) = filter P ys"
  by (induction ys) simp_all

lemma filter_insort_cmp_same:
  "P x \<Longrightarrow> (\<And>y. P y \<Longrightarrow> \<not> cmp y x < 0) \<Longrightarrow>
   filter P (insort_cmp cmp x ys) = x # filter P ys"
  by (induction ys) auto

lemma mset_insort_cmp: "mset (insort_cmp cmp x ys) = add_mset x (mset ys)"
  by (induction ys) simp_all

lemma mset_sort_cmp: "mset (sort_cmp cmp xs) = mset xs"
  by (induction xs) (simp_all add: sort_cmp_def mset_insort_cmp)

lemma filter_sort_cmp:
  assumes "\<And>x y. P x \<Longrightarrow> P y \<Longrightarrow> \<not> cmp y x < 0"
  shows "filter P (sort_cmp cmp xs) = filter P xs"
proof (induction xs)
  case Nil
  show ?case by (simp add: sort_cmp_def)
next
  case (Cons x xs)
  then have ih: "filter P (foldr (insort_cmp cmp) xs []) = filter P xs"
    by (simp add: sort_cmp_def)
  show ?case
  proof (cases "P x")
    case True
    then show ?thesis
      using filter_insort_cmp_same[of P x cmp "foldr (insort_cmp cmp) xs []"] assms ih
      by (simp add: sort_cmp_def)
  next
    case False
    then show ?thesis
      using filter_insort_cmp_other[of P x cmp] ih by (simp add: sort_cmp_def)
  qed
qed

lemma sort_key_after_sort_cmp:
  assumes "\<And>x y. f x = f y \<Longrightarrow> \<not> cmp y x < 0"
  shows "sort_key f (sort_cmp cmp xs) = sort_key f xs"
proof (rule properties_for_sort_key[symmetric])
  show "mset (sort_key f (sort_cmp cmp xs)) = mset xs"
    by (simp add: mset_sort_cmp)
next
  fix k
  have "filter (\<lambda>x. f k = f x) (sort_key f (sort_cmp cmp xs))
      = filter (\<lambda>x. f k = f x) (sort_cmp cmp xs)"
    using filter_sort[of "\<lambda>x. f k = f x" f "sort_cmp cmp xs"] sort_key_stable[of f "f k" "sort_cmp cmp xs"]
    by (metis (mono_tags, lifting) filter_cong)
  also have "\<dots> = filter (\<lambda>x. f k = f x) xs"
    by (rule filter_sort_cmp) (use assms in auto)
  finally show "filter (\<lambda>x. f k = f x) (sort_key f (sort_cmp cmp xs)) = filter (\<lambda>x. f k = f x) xs" .
next
  show "sorted (map f (sort_key f (sort_cmp cmp xs)))" by simp
qed

text \<open>
  C5 (the code). The sort by \<open>cmp_ref_name\<close> never changes the result: two operations
  with the same ref name compare equal, and the later stable sort by name is the primary
  key. The operations are processed in the order of their ref names alone. At the
  failing input the platform runtime has 3 name segments and the GL extension 5; the
  first sort puts the platform first, the second puts the deeper ref before the
  shallower one.
\<close>

theorem C5_name_sort_overrides_segment_sort:
  "sorted_operations ops =
     (if list_ex (\<lambda>op. isl (ref_parse (get_ref op))) ops then Inl GLibError
      else Inr (sort_key (\<lambda>op. name_of_ref (get_ref op)) ops)) \<and>
   segments op_platform = 3 \<and> segments op_gl = 5 \<and>
   sort_cmp cmp_ref_name [op_gl, op_platform] = [op_platform, op_gl] \<and>
   sorted_operations [op_platform, op_gl] = Inr [op_gl, op_platform] \<and>
   sorted_operations [op_gl, op_platform] = Inr [op_gl, op_platform]"
proof -
  have "sorted_operations ops =
     (if list_ex (\<lambda>op. isl (ref_parse (get_ref op))) ops then Inl GLibError
      else Inr (sort_key (\<lambda>op. name_of_ref (get_ref op)) ops))"
    unfolding sorted_operations_def
    using sort_key_after_sort_cmp[of "\<lambda>op. name_of_ref (get_ref op)" cmp_ref_name ops]
    by (simp add: cmp_ref_name_def)
  moreover have "segments op_platform = 3 \<and> segments op_gl = 5 \<and>
     sort_cmp cmp_ref_name [op_gl, op_platform] = [op_platform, op_gl] \<and>
     sorted_operations [op_platform, op_gl] = Inr [op_gl, op_platform] \<and>
     sorted_operations [op_gl, op_platform] = Inr [op_gl, op_platform]"
    by (simp add: flatpak_defs)
  ultimately show ?thesis by simp
qed

text \<open>
  C6 (the code at the failing input). The calculator is of kind \<open>app\<close>, yet
  \<open>is_base_package\<close> answers \<open>False\<close>: it tests whether the ref name, here
  \<open>org.gnome.Calculator\<close>, starts with \<open>app\<close>, not the kind.
\<close>

theorem C6_app_kind_not_base_package:
  "ref_parse (get_ref op_calculator)
     = Inr \<lparr>get_kind = ''app'', get_name = ''org.gnome.Calculator'', get_arch = ''x86_64'',
            get_branch = ''stable''\<rparr> \<and>
   flatpak_type calculator_update = ''app'' \<and>
   ref_name calculator_update = ''org.gnome.Calculator'' \<and>
   is_base_package calculator_update = False"
  by (simp add: calculator_update_def FlatpakUpdate_init_def is_base_package_def get_string_def
      bind_err_def flatpak_defs)

section \<open>Properties of the update aggregation\<close>







text \<open>
  C7 (as stated, refuted). The update of source \<open>libreoffice\<close> has the main package
  \<open>libreoffice\<close>; the incoming package is \<open>python3-uno\<close>. Rule (a) does not apply, rule
  (b) does not apply, and rule (c) as stated applies: the main package starts with \<open>lib\<close>
  and the incoming one does not. The code keeps the main package and its description.
\<close>

theorem C7_main_named_like_source_counterexample:
  "main_package_name libreoffice_update = Some ''libreoffice'' \<and>
   source_name libreoffice_update = ''libreoffice'' \<and>
   rule_a libreoffice_update uno_pkg = False \<and>
   rule_b libreoffice_update uno_pkg = False \<and>
   rule_c libreoffice_update uno_pkg = True \<and>
   stated_replacement libreoffice_update uno_pkg = True \<and>
   map_sum id main_package_name (add_package libreoffice_update uno_pkg)
     = Inr (Some ''libreoffice'') \<and>
   map_sum id description (add_package libreoffice_update uno_pkg)
     = Inr ''office productivity suite''"
  by code_simp

text \<open>
  C7 (amended). On an update whose \<open>source_packages\<close> is a set, \<open>add_package\<close> returns;
  it appends the name, adds the source package and the size, and leaves every other
  attribute but the main package and the two descriptions alone. It replaces the main
  package exactly when rule (a) holds, or the current main package is not named like the
  source and one of (b) the main name ends with a listed suffix that the incoming name
  does not end with, (c) the main name starts with \<open>lib\<close> or \<open>gir1.2\<close> and the incoming
  name does not start with that prefix, (d) the main name contains \<open>-locale-\<close>, \<open>-l10n-\<close>
  or \<open>-help-\<close> and the incoming name does not contain that keyword. On replacement the
  main package name is the incoming name and the long and short descriptions are the
  incoming candidate's; otherwise the three are unchanged.
\<close>

theorem C7_add_package_replacement:
  assumes "source_packages self = PySet sp"
  shows "add_package self pkg =
           Inr (if replacement self pkg
                then self\<lparr>package_names := package_names self @ [pkg_name pkg],
                          source_packages :=
                            PySet (insert (v_source_name (candidate pkg) @ ''='' @
                                           v_source_version (candidate pkg)) sp),
                          size_bytes := size_bytes self + v_size (candidate pkg),
                          main_package_name := Some (pkg_name pkg),
                          description := v_description (candidate pkg),
                          short_description := v_raw_description (candidate pkg)\<rparr>
                else self\<lparr>package_names := package_names self @ [pkg_name pkg],
                          source_packages :=
                            PySet (insert (v_source_name (candidate pkg) @ ''='' @
                                           v_source_version (candidate pkg)) sp),
                          size_bytes := size_bytes self + v_size (candidate pkg)\<rparr>)"
proof (cases "main_package_name self")
  case None
  with assms show ?thesis
    by (simp add: add_package_def replacement_def rule_a_def overwrite_main_package_def
        Let_def)
next
  case (Some main)
  with assms show ?thesis
    unfolding add_package_def replacement_def rule_a_def rule_b_def rule_c_def rule_d_def
      overwrite_main_package_def Let_def
    by (cases "pkg_name pkg = source_name self"; cases "main = source_name self";
        simp del: list_ex_Nil_iff list_ex_Cons_iff)
qed

theorem C7_add_package_replacement_witness:
  "source_packages common_update = PySet {''libreoffice=7.6.4''} \<and>
   main_package_name common_update = Some ''libreoffice-common'' \<and>
   description common_update = ''architecture-independent files'' \<and>
   replacement common_update uno_pkg = True \<and>
   map_sum id main_package_name (add_package common_update uno_pkg)
     = Inr (Some ''python3-uno'') \<and>
   map_sum id description (add_package common_update uno_pkg) = Inr ''python-UNO bridge'' \<and>
   map_sum id short_description (add_package common_update uno_pkg) = Inr ''python bridge'' \<and>
   map_sum id package_names (add_package common_update uno_pkg)
     = Inr [''libreoffice-common'', ''python3-uno''] \<and>
   map_sum id size_bytes (add_package common_update uno_pkg) = Inr 1000 \<and>
   source_packages libreoffice_update = PySet {''libreoffice=7.6.4''} \<and>
   replacement libreoffice_update uno_pkg = False \<and>
   map_sum id main_package_name (add_package libreoffice_update uno_pkg)
     = Inr (Some ''libreoffice'') \<and>
   map_sum id description (add_package libreoffice_update uno_pkg)
     = Inr ''office productivity suite'' \<and>
   map_sum id short_description (add_package libreoffice_update uno_pkg)
     = Inr ''office suite''"
proof -
  have h1: "source_packages common_update = PySet {''libreoffice=7.6.4''}"
    by (simp add: common_update_def common_pkg_def Update_init_def Let_def)
  have h2: "source_packages libreoffice_update = PySet {''libreoffice=7.6.4''}"
    by (simp add: libreoffice_update_def libreoffice_pkg_def Update_init_def Let_def)
  have m: "main_package_name common_update = Some ''libreoffice-common'' \<and>
           description common_update = ''architecture-independent files'' \<and>
           package_names common_update = [''libreoffice-common''] \<and>
           size_bytes common_update = 700"
    by (simp add: common_update_def common_pkg_def Update_init_def Let_def)
  have l: "main_package_name libreoffice_update = Some ''libreoffice'' \<and>
           description libreoffice_update = ''office productivity suite'' \<and>
           short_description libreoffice_update = ''office suite''"
    by (simp add: libreoffice_update_def libreoffice_pkg_def Update_init_def Let_def)
  have r1: "replacement common_update uno_pkg" by code_simp
  have r2: "\<not> replacement libreoffice_update uno_pkg" by code_simp
  have u: "pkg_name uno_pkg = ''python3-uno'' \<and>
           v_description (candidate uno_pkg) = ''python-UNO bridge'' \<and>
           v_raw_description (candidate uno_pkg) = ''python bridge'' \<and>
           v_size (candidate uno_pkg) = 300"
    by (simp add: uno_pkg_def)
  show ?thesis
    using h1 h2 m l r1 r2 u
      C7_add_package_replacement [OF h1, of uno_pkg]
      C7_add_package_replacement [OF h2, of uno_pkg]
    by simp
qed

section \<open>Properties of the kernel version key\<close>

lemma split_str_nonempty: "split_str sep s \<noteq> []"
  by (induction sep s rule: split_str.induct) (auto split: list.splits)

lemma split_dot_append:
  "split_str ''.'' (s @ ''.'' @ t) = split_str ''.'' s @ split_str ''.'' t"
proof (induction s)
  case Nil
  show ?case by simp
next
  case (Cons c cs)
  obtain w ws where w: "split_str ''.'' cs = w # ws"
    using split_str_nonempty[of "''.''" cs] by (cases "split_str ''.'' cs") auto
  show ?case
  proof (cases "c = CHR ''.''")
    case True
    then show ?thesis using Cons.IH by simp
  next
    case False
    then show ?thesis using Cons.IH w by simp
  qed
qed

lemma kernel_fields_rc1: "kernel_fields (v @ ''-rc1'') = kernel_fields v @ [''rc1'']"
proof -
  have "replace_char (CHR ''-'') (CHR ''.'') (v @ ''-rc1'')
          = replace_char (CHR ''-'') (CHR ''.'') v @ ''.'' @ ''rc1''"
    by (simp add: replace_char_def)
  moreover have "split_str ''.'' ''rc1'' = [''rc1'']" by simp
  ultimately show ?thesis
    unfolding kernel_fields_def using split_dot_append by metis
qed

lemma rc_suffix_rc1:
  "\<not> list_ex (prefix ''rc'') fs \<Longrightarrow> rc_suffix (fs @ [''rc1'']) = ''rc1''"
  by (induction fs) (auto simp: rc_suffix_def)

lemma rc_suffix_none:
  "\<not> list_ex (prefix ''rc'') fs \<Longrightarrow> rc_suffix fs = ''z''"
  by (induction fs) (auto simp: rc_suffix_def)

lemma numeric_rc1: "filter isnumeric (fs @ [''rc1'']) = filter isnumeric fs"
  by (simp add: isnumeric_def)

lemma KernelVersion_release:
  assumes "\<not> list_ex (prefix ''rc'') (kernel_fields v)"
  shows "KernelVersion v =
     finish_version_id ''z'' (pad_fields (map pad_field (filter isnumeric (kernel_fields v))))"
  by (simp only: KernelVersion_def Let_def rc_suffix_none[OF assms])

lemma KernelVersion_rc1:
  assumes "\<not> list_ex (prefix ''rc'') (kernel_fields v)"
  shows "KernelVersion (v @ ''-rc1'') =
     finish_version_id ''rc1'' (pad_fields (map pad_field (filter isnumeric (kernel_fields v))))"
  by (simp only: KernelVersion_def Let_def kernel_fields_rc1 rc_suffix_rc1[OF assms] numeric_rc1)

lemma append_less_append: "(xs @ ys < xs @ zs) = (ys < (zs :: ('a::linorder) list))"
  by (induction xs) simp_all

lemma suffix_less: "x @ ''rc1'' < x @ ''z''"
  by (simp add: append_less_append)

lemma finish_greater:
  assumes "length vid = 4 \<or> (length vid > 4 \<and> length (vid ! 4) = 6)"
  shows "finish_version_id ''rc1'' vid < finish_version_id ''z'' vid"
proof (cases "length vid = 4")
  case True
  then show ?thesis
    by (simp add: finish_version_id_def append_less_append)
next
  case False
  with assms have l: "length vid > 4" "length (vid ! 4) = 6" by auto
  then have "vid[4 := vid ! 4 @ s] = take 4 vid @ (vid ! 4 @ s) # drop 5 vid" for s
    by (simp add: upd_conv_take_nth_drop)
  with l False show ?thesis
    by (simp add: finish_version_id_def append_less_append)
qed

lemma finish_equal:
  assumes "\<not> (length vid = 4 \<or> (length vid > 4 \<and> length (vid ! 4) = 6))"
  shows "finish_version_id s vid = vid"
  using assms by (auto simp: finish_version_id_def)

lemma pad_fields_long: "length xs \<ge> 4 \<Longrightarrow> pad_fields xs = xs"
  by (simp add: pad_fields.simps[of xs])

lemma pad_fields_short: "length xs \<le> 4 \<Longrightarrow> length (pad_fields xs) = 4"
proof (induction xs rule: pad_fields.induct)
  case (1 version_id)
  show ?case
  proof (cases "length version_id < 4")
    case True
    with 1 show ?thesis by (simp add: pad_fields.simps[of version_id])
  next
    case False
    with 1 show ?thesis by (simp add: pad_fields.simps[of version_id])
  qed
qed

text \<open>
  C8 (as stated, refuted). \<open>5.4.0-150.167\<close>, the form of a kernel package version, has
  five numeric components and no \<open>rc\<close> component; its key and the key of
  \<open>5.4.0-150.167-rc1\<close> are the same list, so the release is not above the pre-release.
\<close>

theorem C8_five_numeric_fields_counterexample:
  "list_ex (prefix ''rc'') (kernel_fields ''5.4.0-150.167'') = False \<and>
   KernelVersion ''5.4.0-150.167'' = [''005'', ''004'', ''000'', ''150'', ''167''] \<and>
   KernelVersion (''5.4.0-150.167'' @ ''-rc1'') = [''005'', ''004'', ''000'', ''150'', ''167''] \<and>
   (KernelVersion ''5.4.0-150.167'' > KernelVersion (''5.4.0-150.167'' @ ''-rc1'')) = False"
  by code_simp

text \<open>
  C8 (amended). Let \<open>v\<close> have no component starting with \<open>rc\<close>. If \<open>v\<close> has at most four
  numeric components, or its fifth numeric component has exactly six characters, the key
  of \<open>v\<close> is strictly greater than the key of \<open>v-rc1\<close>. If it has more than four numeric
  components and the fifth does not have six characters, no suffix is recorded and the
  two keys are equal.
\<close>

theorem C8_release_above_rc:
  assumes "\<not> list_ex (prefix ''rc'') (kernel_fields v)"
  shows "(length (filter isnumeric (kernel_fields v)) \<le> 4 \<or>
          length (filter isnumeric (kernel_fields v) ! 4) = 6
            \<longrightarrow> KernelVersion v > KernelVersion (v @ ''-rc1'')) \<and>
         (length (filter isnumeric (kernel_fields v)) > 4 \<and>
          length (filter isnumeric (kernel_fields v) ! 4) \<noteq> 6
            \<longrightarrow> KernelVersion v = KernelVersion (v @ ''-rc1''))"
proof -
  define nums where "nums = filter isnumeric (kernel_fields v)"
  define vid where "vid = pad_fields (map pad_field nums)"
  have k1: "KernelVersion v = finish_version_id ''z'' vid"
    and k2: "KernelVersion (v @ ''-rc1'') = finish_version_id ''rc1'' vid"
    using KernelVersion_release[OF assms] KernelVersion_rc1[OF assms]
    by (simp_all add: vid_def nums_def)
  have short: "length vid = 4" if "length nums \<le> 4"
    using that pad_fields_short[of "map pad_field nums"] by (simp add: vid_def)
  have long: "vid = map pad_field nums" if "length nums > 4"
    using that pad_fields_long[of "map pad_field nums"] by (simp add: vid_def)
  have six: "length (pad_field e) = 6 \<longleftrightarrow> length e = 6" for e
    by (auto simp: pad_field_def)
  have gt: "KernelVersion v > KernelVersion (v @ ''-rc1'')"
    if "length nums \<le> 4 \<or> length (nums ! 4) = 6"
  proof (cases "length nums \<le> 4")
    case True
    then show ?thesis using finish_greater[of vid] short by (simp add: k1 k2)
  next
    case False
    with that have "length nums > 4" "length (nums ! 4) = 6" by auto
    then have "length vid > 4 \<and> length (vid ! 4) = 6"
      using long six by simp
    then show ?thesis using finish_greater[of vid] by (simp add: k1 k2)
  qed
  have eq: "KernelVersion v = KernelVersion (v @ ''-rc1'')"
    if "length nums > 4 \<and> length (nums ! 4) \<noteq> 6"
  proof -
    from that have "length vid > 4 \<and> length (vid ! 4) \<noteq> 6"
      using long six by simp
    then have "finish_version_id s vid = vid" for s
      using finish_equal[of vid s] by simp
    then show ?thesis by (simp add: k1 k2)
  qed
  from gt eq show ?thesis unfolding nums_def by blast
qed

theorem C8_release_above_rc_witness:
  "list_ex (prefix ''rc'') (kernel_fields ''5.10.0'') = False \<and>
   length (filter isnumeric (kernel_fields ''5.10.0'')) = 3 \<and>
   KernelVersion ''5.10.0'' = [''005'', ''010'', ''000'', ''000'', ''05100000z''] \<and>
   KernelVersion (''5.10.0'' @ ''-rc1'') = [''005'', ''010'', ''000'', ''000'', ''05100000rc1''] \<and>
   KernelVersion ''5.10.0'' > KernelVersion (''5.10.0'' @ ''-rc1'')"
proof -
  have h: "\<not> list_ex (prefix ''rc'') (kernel_fields ''5.10.0'')" by code_simp
  have n: "length (filter isnumeric (kernel_fields ''5.10.0'')) = 3" by code_simp
  have k: "KernelVersion ''5.10.0'' = [''005'', ''010'', ''000'', ''000'', ''05100000z''] \<and>
     KernelVersion (''5.10.0'' @ ''-rc1'')
       = [''005'', ''010'', ''000'', ''000'', ''05100000rc1'']" by code_simp
  from C8_release_above_rc [OF h] n
  have "KernelVersion ''5.10.0'' > KernelVersion (''5.10.0'' @ ''-rc1'')" by simp
  with h n k show ?thesis by simp
qed

section \<open>Properties of the wire record\<close>


























end
